theory Spec2Isabelle
  imports Complex_Main "HOL-Library.AList"
begin

section \<open>JavaScript numbers\<close>

text \<open>
  The calculator adds and compares JavaScript numbers, which are IEEE 754 doubles.  A
  number is a finite value, one of the two infinities, or \<open>NaN\<close>.  A finite value is the
  rational it denotes; every operation that produces a number rounds its exact result
  to the nearest double (ties to even, overflow to an infinity, underflow to zero), so
  addition is commutative but not associative, as in the language.  The two zeros are
  one value: the component only adds, compares with \<open>>\<close> and tests truthiness, none
  of which tells them apart, and its sums start from \<open>+0\<close>.
\<close>

datatype jsnum = Fin rat | PInf | NInf | NaN

text \<open>The number of binary digits of a positive integer.\<close>

function bit_length :: "int \<Rightarrow> nat" where
  "bit_length n = (if n \<le> 0 then 0 else Suc (bit_length (n div 2)))"
  by pat_completeness auto
termination
  by (relation "measure nat") auto

declare bit_length.simps [simp del]

definition pow2 :: "int \<Rightarrow> rat" where
  "pow2 e = (if 0 \<le> e then 2 ^ nat e else 1 / 2 ^ nat (- e))"

text \<open>For \<open>x > 0\<close>, the \<open>e\<close> with \<open>2 ^ e \<le> x < 2 ^ (e + 1)\<close>.\<close>

definition binary_exponent :: "rat \<Rightarrow> int" where
  "binary_exponent x =
     (let d = int (bit_length (fst (quotient_of x)))
              - int (bit_length (snd (quotient_of x)))
      in if pow2 d \<le> x then d else d - 1)"

definition round_half_even :: "rat \<Rightarrow> int" where
  "round_half_even x =
     (let f = \<lfloor>x\<rfloor>; r = x - of_int f
      in if r < 1 / 2 then f
         else if 1 / 2 < r then f + 1
         else if even f then f else f + 1)"

text \<open>
  Rounding to the nearest double: 53 significant binary digits, the least exponent
  \<open>-1074\<close> of a unit in the last place, ties to the even neighbour, and an infinity
  when the rounded value reaches \<open>2 ^ 1024\<close>, that is, when its binary exponent
  reaches 1024.
\<close>

definition round_double :: "rat \<Rightarrow> jsnum" where
  "round_double x =
     (if x = 0 then Fin 0
      else
        let a = \<bar>x\<bar>;
            e = binary_exponent a;
            q = (if e < - 1022 then - 1074 else e - 52);
            m = round_half_even (a / pow2 q);
            e' = (if m = 2 ^ 53 then e + 1 else e)
        in if 1024 \<le> e' then (if 0 < x then PInf else NInf)
           else Fin (if 0 < x then of_int m * pow2 q else - (of_int m * pow2 q)))"

instantiation jsnum :: "{zero, plus}"
begin

definition zero_jsnum :: jsnum where
  "zero_jsnum = Fin 0"

definition plus_jsnum :: "jsnum \<Rightarrow> jsnum \<Rightarrow> jsnum" where
  "plus_jsnum a b =
     (case a of
        NaN \<Rightarrow> NaN
      | Fin x \<Rightarrow> (case b of Fin y \<Rightarrow> round_double (x + y) | PInf \<Rightarrow> PInf | NInf \<Rightarrow> NInf | NaN \<Rightarrow> NaN)
      | PInf \<Rightarrow> (case b of Fin y \<Rightarrow> PInf | PInf \<Rightarrow> PInf | NInf \<Rightarrow> NaN | NaN \<Rightarrow> NaN)
      | NInf \<Rightarrow> (case b of Fin y \<Rightarrow> NInf | PInf \<Rightarrow> NaN | NInf \<Rightarrow> NInf | NaN \<Rightarrow> NaN))"

instance ..

end

text \<open>\<open>v > w\<close> on numbers: false as soon as one side is \<open>NaN\<close>.\<close>

definition js_gt :: "jsnum \<Rightarrow> jsnum \<Rightarrow> bool" where
  "js_gt v w =
     (case v of
        NaN \<Rightarrow> False
      | Fin x \<Rightarrow> (case w of Fin y \<Rightarrow> y < x | NInf \<Rightarrow> True | _ \<Rightarrow> False)
      | PInf \<Rightarrow> (case w of Fin y \<Rightarrow> True | NInf \<Rightarrow> True | _ \<Rightarrow> False)
      | NInf \<Rightarrow> False)"

text \<open>Truthiness of a number, and \<open>v || 0\<close> on a number.\<close>

definition truthy_num :: "jsnum \<Rightarrow> bool" where
  "truthy_num v = (v \<noteq> NaN \<and> v \<noteq> Fin 0)"

definition or_zero :: "jsnum \<Rightarrow> jsnum" where
  "or_zero v = (if truthy_num v then v else Fin 0)"

section \<open>\<open>Number(string)\<close>\<close>

text \<open>
  \<open>Number\<close> applied to a string is the built-in conversion of the language, not code of the
  component.  A string is a list of code units below 256.  The model follows the grammar
  of numeric string literals: white space (the six ASCII characters and the no-break
  space) is trimmed, the empty string is \<open>0\<close>, then come an optionally signed
  \<open>Infinity\<close>, an optionally signed decimal literal (digits, an optional fraction, an
  optional exponent), or an unsigned binary, octal or hexadecimal integer; anything else
  is \<open>NaN\<close>.  The value of a literal is rounded to the nearest double.
\<close>

definition is_ws :: "char \<Rightarrow> bool" where
  "is_ws c = (of_char c \<in> {9::nat, 10, 11, 12, 13, 32, 160})"

definition trim :: "string \<Rightarrow> string" where
  "trim s = rev (dropWhile is_ws (rev (dropWhile is_ws s)))"

definition is_digit :: "char \<Rightarrow> bool" where
  "is_digit c = (48 \<le> (of_char c :: nat) \<and> (of_char c :: nat) \<le> 57)"

definition hex_val :: "char \<Rightarrow> nat option" where
  "hex_val c =
     (let n = (of_char c :: nat) in
      if 48 \<le> n \<and> n \<le> 57 then Some (n - 48)
      else if 97 \<le> n \<and> n \<le> 102 then Some (n - 87)
      else if 65 \<le> n \<and> n \<le> 70 then Some (n - 55)
      else None)"

definition is_radix_digit :: "nat \<Rightarrow> char \<Rightarrow> bool" where
  "is_radix_digit b c = (case hex_val c of None \<Rightarrow> False | Some d \<Rightarrow> d < b)"

definition digits_val :: "nat \<Rightarrow> string \<Rightarrow> int" where
  "digits_val b s =
     foldl (\<lambda>a c. int b * a + (case hex_val c of None \<Rightarrow> 0 | Some d \<Rightarrow> int d)) 0 s"

definition parse_radix :: "nat \<Rightarrow> string \<Rightarrow> jsnum" where
  "parse_radix b s =
     (if s \<noteq> [] \<and> list_all (is_radix_digit b) s
      then round_double (of_int (digits_val b s)) else NaN)"

text \<open>The exponent part: nothing, or \<open>e\<close>/\<open>E\<close>, an optional sign and at least one digit.\<close>

definition parse_exponent :: "string \<Rightarrow> int option" where
  "parse_exponent s =
     (case s of
        [] \<Rightarrow> Some 0
      | c # t \<Rightarrow>
          if c = CHR ''e'' \<or> c = CHR ''E'' then
            (let (neg, ds) =
               (case t of
                  [] \<Rightarrow> (False, [])
                | d # u \<Rightarrow> if d = CHR ''-'' then (True, u)
                           else if d = CHR ''+'' then (False, u) else (False, t))
             in if ds \<noteq> [] \<and> list_all is_digit ds
                then Some (if neg then - digits_val 10 ds else digits_val 10 ds)
                else None)
          else None)"

definition pow10 :: "int \<Rightarrow> rat" where
  "pow10 e = (if 0 \<le> e then 10 ^ nat e else 1 / 10 ^ nat (- e))"

definition parse_unsigned_decimal :: "string \<Rightarrow> jsnum" where
  "parse_unsigned_decimal s =
     (if s = ''Infinity'' then PInf
      else
        let ip = takeWhile is_digit s;
            r1 = dropWhile is_digit s;
            fp = (case r1 of [] \<Rightarrow> [] | c # t \<Rightarrow> if c = CHR ''.'' then takeWhile is_digit t else []);
            r2 = (case r1 of [] \<Rightarrow> [] | c # t \<Rightarrow> if c = CHR ''.'' then dropWhile is_digit t else r1)
        in if ip = [] \<and> fp = [] then NaN
           else (case parse_exponent r2 of
                   None \<Rightarrow> NaN
                 | Some e \<Rightarrow>
                     round_double
                       (of_int (digits_val 10 (ip @ fp)) * pow10 (e - int (length fp)))))"

definition negate :: "jsnum \<Rightarrow> jsnum" where
  "negate v = (case v of Fin x \<Rightarrow> Fin (- x) | PInf \<Rightarrow> NInf | NInf \<Rightarrow> PInf | NaN \<Rightarrow> NaN)"

definition Number_str :: "string \<Rightarrow> jsnum" where
  "Number_str s =
     (let t = trim s in
      case t of
        [] \<Rightarrow> Fin 0
      | c # u \<Rightarrow>
          if c = CHR ''-'' then negate (parse_unsigned_decimal u)
          else if c = CHR ''+'' then parse_unsigned_decimal u
          else if c = CHR ''0'' \<and> u \<noteq> [] \<and> hd u \<in> {CHR ''x'', CHR ''X''} then parse_radix 16 (tl u)
          else if c = CHR ''0'' \<and> u \<noteq> [] \<and> hd u \<in> {CHR ''o'', CHR ''O''} then parse_radix 8 (tl u)
          else if c = CHR ''0'' \<and> u \<noteq> [] \<and> hd u \<in> {CHR ''b'', CHR ''B''} then parse_radix 2 (tl u)
          else parse_unsigned_decimal t)"

text \<open>\<open>Number(v || 0)\<close> for a string \<open>v\<close>: the empty string is falsy, so \<open>Number(0)\<close>.\<close>

definition Number_or_zero :: "string \<Rightarrow> jsnum" where
  "Number_or_zero v = (if v = [] then Fin 0 else Number_str v)"

section \<open>Numbers in template strings\<close>

text \<open>
  A number put into a template string is printed by the built-in conversion of numbers
  to strings: the shortest decimal digits that read back as the same double (at most
  17), without an exponent when the decimal point lies within 21 places to the right
  or 6 to the left of the first digit.
\<close>

function show_digits :: "int \<Rightarrow> string" where
  "show_digits n =
     (if n < 10 then [char_of (48 + n)]
      else show_digits (n div 10) @ [char_of (48 + n mod 10)])"
  by pat_completeness auto
termination
  by (relation "measure nat") auto

declare show_digits.simps [simp del]

text \<open>For \<open>x > 0\<close>, the \<open>n\<close> with \<open>10 ^ (n - 1) \<le> x < 10 ^ n\<close> (doubles are above \<open>10 ^ - 324\<close>).\<close>

definition decimal_position :: "rat \<Rightarrow> int" where
  "decimal_position x =
     (if 1 \<le> x then int (length (show_digits \<lfloor>x\<rfloor>))
      else (case find (\<lambda>j. 1 \<le> x * 10 ^ Suc j) [0..<400] of
              None \<Rightarrow> - 400
            | Some j \<Rightarrow> - int j))"

text \<open>
  The pairs \<open>(n, s)\<close> with \<open>k\<close> digits in \<open>s\<close> such that \<open>s * 10 ^ (n - k)\<close> reads back
  as \<open>x\<close>; the digits below and above \<open>x\<close> are the only candidates.
\<close>

definition digit_candidates :: "rat \<Rightarrow> nat \<Rightarrow> (int \<times> int) list" where
  "digit_candidates x k =
     filter (\<lambda>(n, s). 10 ^ (k - 1) \<le> s \<and> s < 10 ^ k
                      \<and> round_double (of_int s * pow10 (n - int k)) = Fin x)
       (concat (map (\<lambda>n. [(n, \<lfloor>x / pow10 (n - int k)\<rfloor>),
                           (n, \<lfloor>x / pow10 (n - int k)\<rfloor> + 1)])
                  [decimal_position x, decimal_position x + 1]))"

definition closest_candidate :: "rat \<Rightarrow> nat \<Rightarrow> (int \<times> int) list \<Rightarrow> int \<times> int" where
  "closest_candidate x k cs =
     fold (\<lambda>c best.
             if \<bar>of_int (snd c) * pow10 (fst c - int k) - x\<bar>
                  < \<bar>of_int (snd best) * pow10 (fst best - int k) - x\<bar>
             then c else best) (tl cs) (hd cs)"

definition format_digits :: "int \<Rightarrow> nat \<Rightarrow> int \<Rightarrow> string" where
  "format_digits n k s =
     (let ds = show_digits s in
      if int k \<le> n \<and> n \<le> 21 then ds @ replicate (nat (n - int k)) CHR ''0''
      else if 0 < n \<and> n \<le> 21 then take (nat n) ds @ ''.'' @ drop (nat n) ds
      else if - 6 < n \<and> n \<le> 0 then ''0.'' @ replicate (nat (- n)) CHR ''0'' @ ds
      else
        (if k = 1 then ds else take 1 ds @ ''.'' @ drop 1 ds)
        @ ''e'' @ (if n - 1 < 0 then ''-'' else ''+'') @ show_digits \<bar>n - 1\<bar>)"

definition show_positive :: "rat \<Rightarrow> string" where
  "show_positive x =
     (case find (\<lambda>k. digit_candidates x k \<noteq> []) [1..<18] of
        None \<Rightarrow> format_digits (decimal_position x) 17
                 \<lfloor>x / pow10 (decimal_position x - 17)\<rfloor>
      | Some k \<Rightarrow>
          (let c = closest_candidate x k (digit_candidates x k)
           in format_digits (fst c) k (snd c)))"

definition Number_toString :: "jsnum \<Rightarrow> string" where
  "Number_toString v =
     (case v of
        NaN \<Rightarrow> ''NaN''
      | PInf \<Rightarrow> ''Infinity''
      | NInf \<Rightarrow> ''-Infinity''
      | Fin x \<Rightarrow>
          if x = 0 then ''0''
          else if x < 0 then CHR ''-'' # show_positive (- x)
          else show_positive x)"

section \<open>Objects used as dictionaries\<close>

text \<open>
  The three pieces of state are plain objects.  Reading \<open>obj[key]\<close> finds an own
  property, or else a property that every plain object inherits from
  \<open>Object.prototype\<close> (a function, or for \<open>__proto__\<close> the prototype itself: a truthy
  value), or else \<open>undefined\<close>.
\<close>

definition Object_prototype_names :: "string list" where
  "Object_prototype_names =
     [''constructor'', ''hasOwnProperty'', ''isPrototypeOf'', ''propertyIsEnumerable'',
      ''toLocaleString'', ''toString'', ''valueOf'', ''__proto__'',
      ''__defineGetter__'', ''__defineSetter__'', ''__lookupGetter__'', ''__lookupSetter__'']"

datatype 'a lookup = Missing | Own 'a | Proto

definition get_prop :: "(string \<rightharpoonup> 'a) \<Rightarrow> string \<Rightarrow> 'a lookup" where
  "get_prop obj key =
     (case obj key of
        Some v \<Rightarrow> Own v
      | None \<Rightarrow> if key \<in> set Object_prototype_names then Proto else Missing)"

text \<open>
  \<open>Object.values\<close> enumerates the own properties: first the keys that are array indices
  (canonical decimal numbers below \<open>2 ^ 32 - 1\<close>) in ascending order, then the other
  keys in the order of their creation.  An association list holds the own properties
  in the order of their creation.
\<close>

definition array_index :: "string \<Rightarrow> int option" where
  "array_index key =
     (if key \<noteq> [] \<and> list_all is_digit key \<and> (key = ''0'' \<or> hd key \<noteq> CHR ''0'')
         \<and> digits_val 10 key < 4294967295
      then Some (digits_val 10 key) else None)"

definition Object_values :: "(string \<times> 'a) list \<Rightarrow> 'a list" where
  "Object_values obj =
     map snd (sort_key (\<lambda>p. case array_index (fst p) of None \<Rightarrow> 0 | Some i \<Rightarrow> i)
                (filter (\<lambda>p. array_index (fst p) \<noteq> None) obj))
     @ map snd (filter (\<lambda>p. array_index (fst p) = None) obj)"

section \<open>Helpers of the component\<close>

text \<open>
  \<^verbatim>\<open>const toNum = (v?: string | number) =>
    (typeof v === "number" ? v : Number(v || 0)) || 0;\<close>
\<close>

datatype toNum_arg = Undefined | Str string | Numb jsnum

definition toNum :: "toNum_arg \<Rightarrow> jsnum" where
  "toNum v =
     or_zero (case v of
                Numb n \<Rightarrow> n
              | Str s \<Rightarrow> Number_or_zero s
              | Undefined \<Rightarrow> Fin 0)"

section \<open>The schema\<close>

text \<open>
  \<^verbatim>\<open>type Option = { optionText: string; optionValue: string; optionHint?: string };
  type Field = { _id: number; type: "Drop Down" | "Toggle" | "Checkbox" | "Line";
                 label: string; description?: string; alias?: string; options?: Option[] };
  type CalculatorData = { ccb_name: string; ccb_fields: Field[] };
  type CcbRoot = { calculators?: CalculatorData[] };\<close>
  An optional property is an \<open>option\<close>.  \<open>ccb_fields\<close> is declared mandatory, but the
  configuration is cast to \<open>CcbRoot\<close> unchecked and the component tests for its absence
  (\<open>calculator?.ccb_fields?.forEach\<close>, \<open>!calculator.ccb_fields\<close>), so it is optional here.
  The properties \<open>_id\<close> and \<open>type\<close> are \<open>field_id\<close> and \<open>ftype\<close> here.
\<close>

record Option =
  optionText :: string
  optionValue :: string
  optionHint :: "string option"

datatype field_type = DropDown | Toggle | Checkbox | Line

record Field =
  field_id :: jsnum
  ftype :: field_type
  label :: string
  description :: "string option"
  "alias" :: "string option"
  options :: "Option list option"

record CalculatorData =
  ccb_name :: string
  ccb_fields :: "Field list option"

record CcbRoot =
  calculators :: "CalculatorData list option"

text \<open>\<^verbatim>\<open>const calculator: CalculatorData | null = ccbRoot.calculators?.[0] ?? null;\<close>\<close>

definition calculator :: "CcbRoot \<Rightarrow> CalculatorData option" where
  "calculator ccbRoot =
     (case calculators ccbRoot of
        None \<Rightarrow> None
      | Some cs \<Rightarrow> (case cs of [] \<Rightarrow> None | c # _ \<Rightarrow> Some c))"

text \<open>The fields that \<open>calculator?.ccb_fields?.forEach\<close> visits.\<close>

definition fields_of :: "CalculatorData option \<Rightarrow> Field list" where
  "fields_of calc =
     (case calc of
        None \<Rightarrow> []
      | Some c \<Rightarrow> (case ccb_fields c of None \<Rightarrow> [] | Some fs \<Rightarrow> fs))"

section \<open>The selection state\<close>

text \<open>
  \<open>dropdownValues\<close> is enumerated by \<open>Object.values\<close>, so it is an association list;
  \<open>dropdownLabels\<close> and \<open>checked\<close> are only looked up, so they are maps of their own
  properties.
\<close>

record state =
  dropdownValues :: "(string \<times> jsnum) list"
  dropdownLabels :: "string \<rightharpoonup> string"
  checked :: "string \<rightharpoonup> bool"

definition initial_state :: state where
  "initial_state = \<lparr>dropdownValues = [], dropdownLabels = Map.empty, checked = Map.empty\<rparr>"

text \<open>The key \<^verbatim>\<open>`${f.alias}:${o.optionText}`\<close>; an absent alias prints as \<open>undefined\<close>.\<close>

definition flag_key :: "Field \<Rightarrow> Option \<Rightarrow> string" where
  "flag_key f opt =
     (case alias f of None \<Rightarrow> ''undefined'' | Some a \<Rightarrow> a) @ '':'' @ optionText opt"

text \<open>\<open>checked[key]\<close> as a condition.\<close>

definition is_checked :: "(string \<rightharpoonup> bool) \<Rightarrow> string \<Rightarrow> bool" where
  "is_checked chk key =
     (case get_prop chk key of Missing \<Rightarrow> False | Own b \<Rightarrow> b | Proto \<Rightarrow> True)"

definition checkable :: "Field \<Rightarrow> bool" where
  "checkable f = (ftype f = Toggle \<or> ftype f = Checkbox)"

section \<open>The running total\<close>

text \<open>
  \<^verbatim>\<open>let sum = 0;
  Object.values(dropdownValues).forEach((v) => (sum += v || 0));
  calculator?.ccb_fields?.forEach((f) => {
    if ((f.type === "Toggle" || f.type === "Checkbox") && f.options) {
      f.options.forEach((o) => {
        const key = `${f.alias}:${o.optionText}`;
        if (checked[key]) sum += toNum(o.optionValue);
      });
    }
  });
  return sum;\<close>
  Each \<open>forEach\<close> is a \<open>fold\<close> over the accumulator \<open>sum\<close>, here \<open>acc\<close>.
\<close>

definition add_options :: "(Option \<Rightarrow> jsnum) \<Rightarrow> (string \<rightharpoonup> bool) \<Rightarrow> Field \<Rightarrow> jsnum \<Rightarrow> jsnum" where
  "add_options amount chk f acc =
     (if checkable f then
        (case options f of
           None \<Rightarrow> acc
         | Some os \<Rightarrow>
             fold (\<lambda>opt acc. if is_checked chk (flag_key f opt) then acc + amount opt else acc) os acc)
      else acc)"

definition total :: "CalculatorData option \<Rightarrow> state \<Rightarrow> jsnum" where
  "total calc s =
     fold (add_options (\<lambda>opt. toNum (Str (optionValue opt))) (checked s)) (fields_of calc)
       (fold (\<lambda>v acc. acc + or_zero v) (Object_values (dropdownValues s)) 0)"

text \<open>
  The older variant of the component differs in the amount of a set flag only:
  \<^verbatim>\<open>if (checked[key]) sum += Number(o.optionValue || 0);\<close>
  and in \<^verbatim>\<open>const calculator = ((ccb as any).calculators?.[0] || {}) as CalculatorData;\<close>
  whose empty object has no \<open>ccb_fields\<close>, as \<open>null\<close> has none for \<open>?.\<close>.
\<close>

definition total_old :: "CalculatorData option \<Rightarrow> state \<Rightarrow> jsnum" where
  "total_old calc s =
     fold (add_options (\<lambda>opt. Number_or_zero (optionValue opt)) (checked s)) (fields_of calc)
       (fold (\<lambda>v acc. acc + or_zero v) (Object_values (dropdownValues s)) 0)"

section \<open>The itemized selections\<close>

text \<open>\<^verbatim>\<open>const alias = f.alias || `drop_${f._id}`;\<close> An empty alias is falsy.\<close>

definition dropdown_alias :: "Field \<Rightarrow> string" where
  "dropdown_alias f =
     (case alias f of
        None \<Rightarrow> ''drop_'' @ Number_toString (field_id f)
      | Some a \<Rightarrow> if a = [] then ''drop_'' @ Number_toString (field_id f) else a)"

text \<open>
  A row holds what the code puts into it: the label of a Dropdown is a string, or the
  inherited property found under its key; likewise the price.
\<close>

datatype jsval = JSNumber jsnum | JSString string | Inherited string

record row =
  "section" :: string
  item :: jsval
  price :: jsval

text \<open>
  \<^verbatim>\<open>if (f.type === "Drop Down") {
    const alias = f.alias || `drop_${f._id}`;
    const value = dropdownValues[alias];
    const label = dropdownLabels[alias];
    if (value && label) rows.push({ section: f.label, item: label, price: value });
  }\<close>
\<close>

definition truthy_value :: "jsnum lookup \<Rightarrow> bool" where
  "truthy_value p = (case p of Missing \<Rightarrow> False | Own v \<Rightarrow> truthy_num v | Proto \<Rightarrow> True)"

definition truthy_label :: "string lookup \<Rightarrow> bool" where
  "truthy_label p = (case p of Missing \<Rightarrow> False | Own l \<Rightarrow> l \<noteq> [] | Proto \<Rightarrow> True)"

definition push_dropdown :: "state \<Rightarrow> Field \<Rightarrow> row list \<Rightarrow> row list" where
  "push_dropdown s f rows =
     (if ftype f = DropDown then
        (let value = get_prop (map_of (dropdownValues s)) (dropdown_alias f);
             label' = get_prop (dropdownLabels s) (dropdown_alias f)
         in if truthy_value value \<and> truthy_label label'
            then rows @ [\<lparr>section = label f,
                          item = (case label' of Own l \<Rightarrow> JSString l
                                  | _ \<Rightarrow> Inherited (dropdown_alias f)),
                          price = (case value of Own v \<Rightarrow> JSNumber v
                                   | _ \<Rightarrow> Inherited (dropdown_alias f))\<rparr>]
            else rows)
      else rows)"

text \<open>
  \<^verbatim>\<open>if ((f.type === "Toggle" || f.type === "Checkbox") && f.options) {
    f.options.forEach((o) => {
      const key = `${f.alias}:${o.optionText}`;
      if (checked[key])
        rows.push({ section: f.label, item: o.optionText, price: toNum(o.optionValue) });
    });
  }\<close>
\<close>

definition push_checked :: "state \<Rightarrow> Field \<Rightarrow> row list \<Rightarrow> row list" where
  "push_checked s f rows =
     (if checkable f then
        (case options f of
           None \<Rightarrow> rows
         | Some os \<Rightarrow>
             fold (\<lambda>opt rows.
                     if is_checked (checked s) (flag_key f opt)
                     then rows @ [\<lparr>section = label f, item = JSString (optionText opt),
                                   price = JSNumber (toNum (Str (optionValue opt)))\<rparr>]
                     else rows) os rows)
      else rows)"

definition buildSelections :: "CalculatorData option \<Rightarrow> state \<Rightarrow> row list" where
  "buildSelections calc s =
     fold (push_checked s) (fields_of calc) (fold (push_dropdown s) (fields_of calc) [])"

section \<open>The export\<close>

text \<open>
  \<open>handleDownloadPdf\<close> either shows the alert and returns, or draws the document and
  saves it.  The document is kept as what is printed on it (title, issue date, rows,
  total); the layout calls of the PDF writer are not modelled.  The two readings of the
  clock are parameters.  The handler calls no state setter, so it returns an effect only.
\<close>

record pdf =
  title :: string
  issued :: string
  table :: "row list"
  total_line :: jsnum

datatype effect = Alert string | Save pdf string

text \<open>\<^verbatim>\<open>new Date().toISOString().slice(0, 19).replace(/[:T]/g, "-")\<close>\<close>

definition safeDate :: "string \<Rightarrow> string" where
  "safeDate isoString =
     map (\<lambda>c. if c = CHR '':'' \<or> c = CHR ''T'' then CHR ''-'' else c) (take 19 isoString)"

text \<open>
  \<^verbatim>\<open>const somethingSelected =
    rows.length > 0 || Object.values(dropdownValues).some((v) => v > 0);\<close>
\<close>

definition somethingSelected :: "CalculatorData option \<Rightarrow> state \<Rightarrow> bool" where
  "somethingSelected calc s =
     (length (buildSelections calc s) > 0
      \<or> list_ex (\<lambda>v. js_gt v 0) (Object_values (dropdownValues s)))"

definition handleDownloadPdf :: "CalculatorData option \<Rightarrow> state \<Rightarrow> string \<Rightarrow> string \<Rightarrow> effect" where
  "handleDownloadPdf calc s localeString isoString =
     (if \<not> somethingSelected calc s
      then Alert ''Please make some selections before submitting.''
      else Save \<lparr>title = (case calc of
                              None \<Rightarrow> ''Quote''
                            | Some c \<Rightarrow> if ccb_name c = [] then ''Quote'' else ccb_name c),
                  issued = ''Issued: '' @ localeString,
                  table = buildSelections calc s,
                  total_line = total calc s\<rparr>
                (''JO-NA_Quote_'' @ safeDate isoString @ ''.pdf''))"

section \<open>The event handlers\<close>

text \<open>
  The \<open>onChange\<close> handler of a Drop Down field, on the raw value \<open>e.target.value\<close>:
  \<^verbatim>\<open>const val = Number(e.target.value || 0);
  const text = f.options?.find((o) => String(o.optionValue) === e.target.value)?.optionText || "";
  setDropdownValues((s) => ({ ...s, [alias]: val }));
  setDropdownLabels((s) => ({ ...s, [alias]: text }));\<close>
  The spread copies the own properties and the computed key overwrites its property
  or creates it last, which is \<open>AList.update\<close> on the list of own properties; the order
  in which they are read back is that of \<open>Object_values\<close>.
\<close>

definition selected_text :: "Field \<Rightarrow> string \<Rightarrow> string" where
  "selected_text f raw =
     (case options f of
        None \<Rightarrow> []
      | Some os \<Rightarrow>
          (case find (\<lambda>opt. optionValue opt = raw) os of
             None \<Rightarrow> []
           | Some opt \<Rightarrow> if optionText opt = [] then [] else optionText opt))"

definition dropdown_onChange :: "Field \<Rightarrow> string \<Rightarrow> state \<Rightarrow> state" where
  "dropdown_onChange f raw s =
     s\<lparr>dropdownValues := AList.update (dropdown_alias f) (Number_or_zero raw) (dropdownValues s),
       dropdownLabels := (dropdownLabels s)(dropdown_alias f \<mapsto> selected_text f raw)\<rparr>"

text \<open>
  The \<open>onChange\<close> handler of one checkbox, on \<open>e.target.checked\<close>:
  \<^verbatim>\<open>setChecked((s) => ({ ...s, [key]: e.target.checked }))\<close>
\<close>

definition checkbox_onChange :: "Field \<Rightarrow> Option \<Rightarrow> bool \<Rightarrow> state \<Rightarrow> state" where
  "checkbox_onChange f opt b s = s\<lparr>checked := (checked s)(flag_key f opt \<mapsto> b)\<rparr>"

text \<open>
  A click on a rendered checkbox.  The input is controlled (\<open>checked={isChecked}\<close> with
  \<open>isChecked = !!checked[key]\<close>), so the change event carries the negation of the value
  that is shown.
\<close>

definition checkbox_click :: "Field \<Rightarrow> Option \<Rightarrow> state \<Rightarrow> state" where
  "checkbox_click f opt s =
     checkbox_onChange f opt (\<not> is_checked (checked s) (flag_key f opt)) s"

section \<open>The view\<close>

text \<open>
  What the component returns: the message of lines 211 to 220, or the form with one
  control for each field and the submit button, the only caller of \<open>handleDownloadPdf\<close>.
\<close>

datatype control = Hr | Select Field | CheckboxInput Field Option bool

datatype view = NoCalculatorFound | CalculatorForm string jsnum "control list"

definition render_field :: "state \<Rightarrow> Field \<Rightarrow> control list" where
  "render_field s f =
     (if ftype f = Line then [Hr]
      else if ftype f = DropDown then [Select f]
      else if checkable f then
        map (\<lambda>opt. CheckboxInput f opt (is_checked (checked s) (flag_key f opt)))
          (case options f of None \<Rightarrow> [] | Some os \<Rightarrow> os)
      else [])"

definition Calculator :: "CalculatorData option \<Rightarrow> state \<Rightarrow> view" where
  "Calculator calc s =
     (case calc of
        None \<Rightarrow> NoCalculatorFound
      | Some c \<Rightarrow>
          (case ccb_fields c of
             None \<Rightarrow> NoCalculatorFound
           | Some fs \<Rightarrow>
               CalculatorForm (if ccb_name c = [] then ''Calculator'' else ccb_name c)
                 (total calc s) (concat (map (render_field s) fs))))"

definition interactive_controls :: "view \<Rightarrow> control list" where
  "interactive_controls v =
     (case v of NoCalculatorFound \<Rightarrow> [] | CalculatorForm _ _ cs \<Rightarrow> filter (\<lambda>c. c \<noteq> Hr) cs)"

definition submit_button :: "view \<Rightarrow> bool" where
  "submit_button v = (case v of NoCalculatorFound \<Rightarrow> False | CalculatorForm _ _ _ \<Rightarrow> True)"

text \<open>
  One step of the running form: an event reaches its handler, whose setter calls give the
  next state; only the submit button has an effect outside the state.
\<close>

datatype event =
    DropdownChange Field string
  | CheckboxChange Field Option bool
  | SubmitClick string string

definition dispatch :: "CalculatorData option \<Rightarrow> event \<Rightarrow> state \<Rightarrow> state \<times> effect option" where
  "dispatch calc ev s =
     (case ev of
        DropdownChange f raw \<Rightarrow> (dropdown_onChange f raw s, None)
      | CheckboxChange f opt b \<Rightarrow> (checkbox_onChange f opt b s, None)
      | SubmitClick localeString isoString \<Rightarrow> (s, Some (handleDownloadPdf calc s localeString isoString)))"

section \<open>Notions of the specification\<close>

text \<open>The options of a field whose flag is set: none for a field that is no Toggle or Checkbox.\<close>

definition flagged_options :: "(string \<rightharpoonup> bool) \<Rightarrow> Field \<Rightarrow> Option list" where
  "flagged_options chk f =
     (if checkable f then
        (case options f of
           None \<Rightarrow> []
         | Some os \<Rightarrow> filter (\<lambda>opt. is_checked chk (flag_key f opt)) os)
      else [])"

text \<open>The amount that a set flag adds, in the current and in the older variant.\<close>

definition parseAmount :: "Option \<Rightarrow> jsnum" where
  "parseAmount opt = toNum (Str (optionValue opt))"

definition amount_old :: "Option \<Rightarrow> jsnum" where
  "amount_old opt = Number_or_zero (optionValue opt)"

text \<open>The line item of a set flag.\<close>

definition flag_item :: "Field \<Rightarrow> Option \<Rightarrow> row" where
  "flag_item f opt =
     \<lparr>section = label f, item = JSString (optionText opt), price = JSNumber (parseAmount opt)\<rparr>"

text \<open>The line items that one field adds in the first loop of \<open>buildSelections\<close>.\<close>

definition dropdown_items :: "state \<Rightarrow> Field \<Rightarrow> row list" where
  "dropdown_items s f = push_dropdown s f []"

text \<open>
  A sum in the order of the list: the accumulator starts at 0 and every addition rounds.
\<close>

definition sum_in_order :: "jsnum list \<Rightarrow> jsnum" where
  "sum_in_order vs = fold (\<lambda>v acc. acc + v) vs 0"

text \<open>
  The total in the words of the specification: the sum of all values of the Dropdown
  mapping, plus the parsed amount of every option whose flag is set, over every field.
\<close>

definition computeTotal_spec :: "CalculatorData option \<Rightarrow> state \<Rightarrow> jsnum" where
  "computeTotal_spec calc s =
     sum_in_order
       (Object_values (dropdownValues s)
        @ concat (map (\<lambda>f. map parseAmount (flagged_options (checked s) f)) (fields_of calc)))"

section \<open>A sample configuration\<close>

text \<open>
  The scenario of the specification: a Travel Dropdown (Economy 0, Business 500) and an
  Extras Checkbox field with the alias \<open>insurance\<close> (Insurance 75).  Added to it: an
  option with an unparsable amount in each field, a discount with a negative amount, a
  second field with the same alias and one with another alias, three fields with the
  amounts 0.1, 0.2 and 0.3, a Dropdown whose alias is \<open>constructor\<close>, a Dropdown without an alias,
  and two roots without a usable calculator.
\<close>

definition demo_travel :: Field where
  "demo_travel =
     \<lparr>field_id = Fin 1, ftype = DropDown, label = ''Travel'', description = None,
      alias = Some ''travel'',
      options = Some [\<lparr>optionText = ''Economy'', optionValue = ''0'', optionHint = None\<rparr>,
                      \<lparr>optionText = ''Business'', optionValue = ''500'', optionHint = None\<rparr>,
                      \<lparr>optionText = ''Custom'', optionValue = ''abc'', optionHint = None\<rparr>]\<rparr>"

definition demo_insurance :: Option where
  "demo_insurance = \<lparr>optionText = ''Insurance'', optionValue = ''75'', optionHint = None\<rparr>"

definition demo_discount :: Option where
  "demo_discount = \<lparr>optionText = ''Discount'', optionValue = ''-25'', optionHint = None\<rparr>"

definition demo_custom :: Option where
  "demo_custom = \<lparr>optionText = ''Custom'', optionValue = ''abc'', optionHint = None\<rparr>"

definition demo_extras :: Field where
  "demo_extras =
     \<lparr>field_id = Fin 2, ftype = Checkbox, label = ''Extras'', description = None,
      alias = Some ''insurance'',
      options = Some [demo_insurance, demo_discount, demo_custom]\<rparr>"




definition demo_tenth :: Option where
  "demo_tenth = \<lparr>optionText = ''Tenth'', optionValue = ''0.1'', optionHint = None\<rparr>"

definition demo_fifth :: Option where
  "demo_fifth = \<lparr>optionText = ''Fifth'', optionValue = ''0.2'', optionHint = None\<rparr>"

definition demo_three_tenths :: Option where
  "demo_three_tenths = \<lparr>optionText = ''Three tenths'', optionValue = ''0.3'', optionHint = None\<rparr>"

definition demo_a :: Field where
  "demo_a =
     \<lparr>field_id = Fin 5, ftype = Checkbox, label = ''A'', description = None,
      alias = Some ''a'', options = Some [demo_tenth]\<rparr>"

definition demo_b :: Field where
  "demo_b =
     \<lparr>field_id = Fin 6, ftype = Checkbox, label = ''B'', description = None,
      alias = Some ''b'', options = Some [demo_fifth]\<rparr>"

definition demo_c :: Field where
  "demo_c =
     \<lparr>field_id = Fin 7, ftype = Checkbox, label = ''C'', description = None,
      alias = Some ''c'', options = Some [demo_three_tenths]\<rparr>"

definition demo_constructor :: Field where
  "demo_constructor =
     \<lparr>field_id = Fin 8, ftype = DropDown, label = ''Builder'', description = None,
      alias = Some ''constructor'', options = Some []\<rparr>"

definition demo_unnamed :: Field where
  "demo_unnamed =
     \<lparr>field_id = Fin 12, ftype = DropDown, label = ''Plan'', description = None,
      alias = None, options = Some []\<rparr>"

definition demo_calc :: "CalculatorData option" where
  "demo_calc = Some \<lparr>ccb_name = ''Quote'', ccb_fields = Some [demo_travel, demo_extras]\<rparr>"


definition demo_calc_abc :: "CalculatorData option" where
  "demo_calc_abc = Some \<lparr>ccb_name = ''Quote'', ccb_fields = Some [demo_a, demo_b, demo_c]\<rparr>"

definition demo_calc_cba :: "CalculatorData option" where
  "demo_calc_cba = Some \<lparr>ccb_name = ''Quote'', ccb_fields = Some [demo_c, demo_b, demo_a]\<rparr>"

definition demo_all_checked :: state where
  "demo_all_checked =
     checkbox_onChange demo_c demo_three_tenths True
       (checkbox_onChange demo_b demo_fifth True
          (checkbox_onChange demo_a demo_tenth True initial_state))"

definition demo_no_fields :: CalculatorData where
  "demo_no_fields = \<lparr>ccb_name = ''Quote'', ccb_fields = None\<rparr>"

definition demo_root_no_fields :: CcbRoot where
  "demo_root_no_fields = \<lparr>calculators = Some [demo_no_fields]\<rparr>"

definition demo_root_empty :: CcbRoot where
  "demo_root_empty = \<lparr>calculators = None\<rparr>"

section \<open>Sums over the accumulator\<close>

lemma NaN_add [simp]: "NaN + v = NaN" "v + NaN = NaN"
  by (cases v; simp add: plus_jsnum_def)+

lemma fold_plus_map: "fold (\<lambda>x acc. acc + g x) xs a = fold (\<lambda>v acc. acc + v) (map g xs) (a :: jsnum)"
  by (induction xs arbitrary: a) simp_all

lemma fold_cond_plus:
  "fold (\<lambda>x acc. if P x then acc + g x else acc) xs a
     = fold (\<lambda>v acc. acc + v) (map g (filter P xs)) (a :: jsnum)"
  by (induction xs arbitrary: a) simp_all

lemma add_options_eq:
  "add_options amount chk f acc = fold (\<lambda>v acc. acc + v) (map amount (flagged_options chk f)) acc"
  by (simp add: add_options_def flagged_options_def fold_cond_plus split: option.splits)

lemma fold_add_options:
  "fold (add_options amount chk) fs acc
     = fold (\<lambda>v acc. acc + v) (concat (map (\<lambda>f. map amount (flagged_options chk f)) fs)) acc"
  by (induction fs arbitrary: acc) (simp_all add: add_options_eq)

lemma total_sum:
  "total calc s =
     sum_in_order
       (map or_zero (Object_values (dropdownValues s))
        @ concat (map (\<lambda>f. map parseAmount (flagged_options (checked s) f)) (fields_of calc)))"
proof -
  have "(\<lambda>opt. toNum (Str (optionValue opt))) = parseAmount"
    by (simp add: fun_eq_iff parseAmount_def)
  moreover have "fold (\<lambda>v acc. acc + or_zero v) (Object_values (dropdownValues s)) 0
        = fold (\<lambda>v acc. acc + v) (map or_zero (Object_values (dropdownValues s))) 0"
    by (rule fold_plus_map)
  ultimately show ?thesis
    by (simp add: total_def sum_in_order_def fold_add_options)
qed

lemma total_old_sum:
  "total_old calc s =
     sum_in_order
       (map or_zero (Object_values (dropdownValues s))
        @ concat (map (\<lambda>f. map amount_old (flagged_options (checked s) f)) (fields_of calc)))"
proof -
  have "(\<lambda>opt. Number_or_zero (optionValue opt)) = amount_old"
    by (simp add: fun_eq_iff amount_old_def)
  moreover have "fold (\<lambda>v acc. acc + or_zero v) (Object_values (dropdownValues s)) 0
        = fold (\<lambda>v acc. acc + v) (map or_zero (Object_values (dropdownValues s))) 0"
    by (rule fold_plus_map)
  ultimately show ?thesis
    by (simp add: total_old_def sum_in_order_def fold_add_options)
qed

lemma fold_plus_from_NaN: "fold (\<lambda>v acc. acc + v) vs NaN = NaN"
  by (induction vs) simp_all

lemma fold_plus_NaN: "NaN \<in> set vs \<Longrightarrow> fold (\<lambda>v acc. acc + v) vs a = NaN"
  by (induction vs arbitrary: a) (auto simp: fold_plus_from_NaN)

lemma or_zero_id: "v \<noteq> NaN \<Longrightarrow> or_zero v = v"
  by (simp add: or_zero_def truthy_num_def)

lemma map_or_zero_id: "NaN \<notin> set vs \<Longrightarrow> map or_zero vs = vs"
  by (induction vs) (auto simp: or_zero_id)

lemma set_Object_values: "set (Object_values obj) = snd ` set obj"
proof -
  have "set obj = {p \<in> set obj. array_index (fst p) \<noteq> None}
                  \<union> {p \<in> set obj. array_index (fst p) = None}"
    by auto
  then have "snd ` set obj = snd ` {p \<in> set obj. array_index (fst p) \<noteq> None}
                  \<union> snd ` {p \<in> set obj. array_index (fst p) = None}"
    by (metis image_Un)
  then show ?thesis
    by (simp add: Object_values_def)
qed

section \<open>Rows pushed by the two loops\<close>

lemma fold_cond_push:
  "fold (\<lambda>x rows. if P x then rows @ [r x] else rows) xs rows0 = rows0 @ map r (filter P xs)"
  by (induction xs arbitrary: rows0) simp_all

lemma push_checked_eq:
  "push_checked s f rows = rows @ map (flag_item f) (flagged_options (checked s) f)"
proof -
  have "(\<lambda>opt. \<lparr>section = label f, item = JSString (optionText opt),
                 price = JSNumber (toNum (Str (optionValue opt)))\<rparr>)
        = flag_item f"
    by (simp add: fun_eq_iff flag_item_def parseAmount_def)
  then show ?thesis
    by (simp add: push_checked_def flagged_options_def fold_cond_push split: option.splits)
qed

lemma fold_push_checked:
  "fold (push_checked s) fs rows =
     rows @ concat (map (\<lambda>f. map (flag_item f) (flagged_options (checked s) f)) fs)"
  by (induction fs arbitrary: rows) (simp_all add: push_checked_eq)

lemma push_dropdown_eq: "push_dropdown s f rows = rows @ dropdown_items s f"
  by (simp add: push_dropdown_def dropdown_items_def Let_def)

lemma fold_push_dropdown:
  "fold (push_dropdown s) fs rows = rows @ concat (map (dropdown_items s) fs)"
  by (induction fs arbitrary: rows) (simp_all add: push_dropdown_eq)

lemma buildSelections_eq:
  "buildSelections calc s =
     concat (map (dropdown_items s) (fields_of calc))
     @ concat (map (\<lambda>f. map (flag_item f) (flagged_options (checked s) f)) (fields_of calc))"
  by (simp add: buildSelections_def fold_push_checked fold_push_dropdown)

section \<open>Keys of flags\<close>

lemma flag_key_colon: "CHR '':'' \<in> set (flag_key f opt)"
  by (simp add: flag_key_def)

lemma flag_key_not_inherited: "flag_key f opt \<notin> set Object_prototype_names"
proof
  assume "flag_key f opt \<in> set Object_prototype_names"
  moreover have "\<forall>n \<in> set Object_prototype_names. CHR '':'' \<notin> set n"
    by (simp add: Object_prototype_names_def)
  ultimately show False
    using flag_key_colon [of f opt] by blast
qed

lemma is_checked_flag_key:
  "is_checked chk (flag_key f opt) \<longleftrightarrow> chk (flag_key f opt) = Some True"
  by (simp add: is_checked_def get_prop_def flag_key_not_inherited split: option.splits)

lemma flag_key_options_update: "flag_key (f\<lparr>options := x\<rparr>) opt = flag_key f opt"
  by (simp add: flag_key_def)

text \<open>The key of a Dropdown without an alias.\<close>

lemma synthetic_key: "dropdown_alias demo_unnamed = ''drop_12''"
  by code_simp

section \<open>The amount of an option\<close>

lemma toNum_Str: "toNum (Str v) = or_zero (Number_or_zero v)"
  by (simp add: toNum_def)

lemma Number_str_Nil: "Number_str [] = Fin 0"
  by (simp add: Number_str_def trim_def)

lemma Number_or_zero_eq: "Number_or_zero v = Number_str v"
  by (simp add: Number_or_zero_def Number_str_Nil)

lemma parseAmount_old: "parseAmount opt = or_zero (amount_old opt)"
  by (simp add: parseAmount_def amount_old_def toNum_Str)

text \<open>
  C4.  \<open>toNum\<close> is a total function (it cannot raise).  It yields 0 on an absent argument
  and on a string that does not parse as a number, such as \<open>abc\<close>.  It does not clamp: a
  string that parses to a negative number is returned as that number.  An option with
  such an \<open>optionValue\<close> whose flag is set enters the total as that negative addend: at
  the turn of the option the sum accumulated so far (the total of the schema cut off
  before the option) becomes that sum plus the negative amount, and the options and
  fields after it are added as usual; when the option is the last one of the last
  field, the total is the total without it plus the negative amount.  The option
  appears in the line items with the negative price.
\<close>

theorem toNum_zero_on_failure_not_clamped:
  "toNum Undefined = Fin 0
   \<and> (Number_str u = NaN \<longrightarrow> toNum (Str u) = Fin 0)
   \<and> toNum (Str ''abc'') = Fin 0
   \<and> (Number_str v = Fin r \<and> r < 0 \<longrightarrow> toNum (Str v) = Fin r)
   \<and> (Number_str (optionValue opt) = Fin r \<and> r < 0 \<and> checkable f
        \<and> options f = Some (os1 @ opt # os2) \<and> is_checked (checked s) (flag_key f opt)
        \<and> ccb_fields c = Some (fs1 @ f # fs2)
      \<longrightarrow> total (Some c) s
            = fold (add_options parseAmount (checked s)) fs2
                (add_options parseAmount (checked s) (f\<lparr>options := Some os2\<rparr>)
                   (total (Some (c\<lparr>ccb_fields := Some (fs1 @ [f\<lparr>options := Some os1\<rparr>])\<rparr>)) s
                    + Fin r))
          \<and> \<lparr>section = label f, item = JSString (optionText opt), price = JSNumber (Fin r)\<rparr>
              \<in> set (buildSelections (Some c) s))
   \<and> (Number_str (optionValue opt) = Fin r \<and> r < 0 \<and> checkable f
        \<and> options f = Some (os1 @ [opt]) \<and> is_checked (checked s) (flag_key f opt)
        \<and> ccb_fields c = Some (fs1 @ [f])
      \<longrightarrow> total (Some c) s
            = total (Some (c\<lparr>ccb_fields := Some (fs1 @ [f\<lparr>options := Some os1\<rparr>])\<rparr>)) s + Fin r)"
proof -
  have amount_eq: "(\<lambda>opt. toNum (Str (optionValue opt))) = parseAmount"
    by (simp add: fun_eq_iff parseAmount_def)
  have neg: "toNum (Str v) = Fin r" if "Number_str v = Fin r \<and> r < 0" for v r
    using that by (simp add: toNum_Str Number_or_zero_eq or_zero_def truthy_num_def)
  have turn: "total (Some c) s
            = fold (add_options parseAmount (checked s)) fs2
                (add_options parseAmount (checked s) (f\<lparr>options := Some os2\<rparr>)
                   (total (Some (c\<lparr>ccb_fields := Some (fs1 @ [f\<lparr>options := Some os1\<rparr>])\<rparr>)) s
                    + Fin r))"
    if h: "Number_str (optionValue opt) = Fin r \<and> r < 0 \<and> checkable f
        \<and> options f = Some (os1 @ opt # os2) \<and> is_checked (checked s) (flag_key f opt)
        \<and> ccb_fields c = Some (fs1 @ f # fs2)" for fs2 os2
  proof -
    have "parseAmount opt = Fin r"
      using h neg [of "optionValue opt" r] by (simp add: parseAmount_def)
    then show ?thesis
      using h
      by (simp add: total_def amount_eq fields_of_def add_options_def checkable_def
          flag_key_options_update)
  qed
  have row: "\<lparr>section = label f, item = JSString (optionText opt), price = JSNumber (Fin r)\<rparr>
              \<in> set (buildSelections (Some c) s)"
    if h: "Number_str (optionValue opt) = Fin r \<and> r < 0 \<and> checkable f
        \<and> options f = Some (os1 @ opt # os2) \<and> is_checked (checked s) (flag_key f opt)
        \<and> ccb_fields c = Some (fs1 @ f # fs2)"
  proof -
    have "parseAmount opt = Fin r"
      using h neg [of "optionValue opt" r] by (simp add: parseAmount_def)
    moreover have "opt \<in> set (flagged_options (checked s) f)"
      using h by (simp add: flagged_options_def)
    then have "flag_item f opt \<in> set (buildSelections (Some c) s)"
      using h by (auto simp: buildSelections_eq fields_of_def)
    ultimately show ?thesis
      by (simp add: flag_item_def)
  qed
  have last: "total (Some c) s
            = total (Some (c\<lparr>ccb_fields := Some (fs1 @ [f\<lparr>options := Some os1\<rparr>])\<rparr>)) s + Fin r"
    if h: "Number_str (optionValue opt) = Fin r \<and> r < 0 \<and> checkable f
        \<and> options f = Some (os1 @ [opt]) \<and> is_checked (checked s) (flag_key f opt)
        \<and> ccb_fields c = Some (fs1 @ [f])"
    using turn [of "[]" "[]"] h by (simp add: add_options_def)
  have "toNum Undefined = Fin 0"
    by (simp add: toNum_def or_zero_def truthy_num_def)
  moreover have "Number_str u = NaN \<longrightarrow> toNum (Str u) = Fin 0"
    by (simp add: toNum_Str Number_or_zero_eq or_zero_def truthy_num_def)
  moreover have "Number_str ''abc'' = NaN"
    by code_simp
  then have "toNum (Str ''abc'') = Fin 0"
    by (simp add: toNum_Str Number_or_zero_eq or_zero_def truthy_num_def)
  ultimately show ?thesis
    using neg [of v r] turn [of os2 fs2] row last by blast
qed

theorem toNum_zero_on_failure_not_clamped_witness:
  "Number_str ''abc'' = NaN \<and> toNum (Str ''abc'') = Fin 0
   \<and> Number_str ''-25'' = Fin (- 25) \<and> toNum (Str ''-25'') = Fin (- 25)
   \<and> total demo_calc (checkbox_onChange demo_extras demo_discount True initial_state) = Fin (- 25)
   \<and> \<lparr>section = ''Extras'', item = JSString ''Discount'', price = JSNumber (Fin (- 25))\<rparr>
        \<in> set (buildSelections demo_calc
                 (checkbox_onChange demo_extras demo_discount True initial_state))"
proof -
  let ?s = "checkbox_onChange demo_extras demo_discount True initial_state"
  let ?c = "\<lparr>ccb_name = ''Quote'', ccb_fields = Some [demo_travel, demo_extras]\<rparr>"
  have nan: "Number_str ''abc'' = NaN"
    by code_simp
  have neg: "Number_str ''-25'' = Fin (- 25)"
    by code_simp
  have hyp: "Number_str (optionValue demo_discount) = Fin (- 25) \<and> (- 25 :: rat) < 0
      \<and> checkable demo_extras
      \<and> options demo_extras = Some ([demo_insurance] @ demo_discount # [demo_custom])
      \<and> is_checked (checked ?s) (flag_key demo_extras demo_discount)
      \<and> ccb_fields ?c = Some ([demo_travel] @ demo_extras # [])"
    using neg
    by (simp add: demo_discount_def demo_extras_def checkable_def is_checked_flag_key
        checkbox_onChange_def)
  have rest: "fold (add_options parseAmount (checked ?s)) []
                (add_options parseAmount (checked ?s) (demo_extras\<lparr>options := Some [demo_custom]\<rparr>)
                   (total (Some (?c\<lparr>ccb_fields :=
                      Some ([demo_travel] @ [demo_extras\<lparr>options := Some [demo_insurance]\<rparr>])\<rparr>)) ?s
                    + Fin (- 25)))
              = Fin (- 25)"
    by code_simp
  note inst = toNum_zero_on_failure_not_clamped
    [of "''abc''" "''-25''" "- 25" demo_discount demo_extras "[demo_insurance]" "[demo_custom]"
       ?s ?c "[demo_travel]" "[]"]
  have "toNum (Str ''abc'') = Fin 0"
    using inst nan by blast
  moreover have "toNum (Str ''-25'') = Fin (- 25)"
  proof -
    have "Number_str ''-25'' = Fin (- 25) \<and> (- 25 :: rat) < 0"
      using neg by simp
    then show ?thesis
      using inst by blast
  qed
  moreover have "total (Some ?c) ?s = Fin (- 25)"
    using inst hyp rest by metis
  moreover have "\<lparr>section = label demo_extras, item = JSString (optionText demo_discount),
                   price = JSNumber (Fin (- 25))\<rparr> \<in> set (buildSelections (Some ?c) ?s)"
    using inst hyp by blast
  then have "\<lparr>section = ''Extras'', item = JSString ''Discount'', price = JSNumber (Fin (- 25))\<rparr>
        \<in> set (buildSelections (Some ?c) ?s)"
    by (simp add: demo_extras_def demo_discount_def)
  ultimately show ?thesis
    using nan neg by (simp add: demo_calc_def)
qed

section \<open>The total as a sum\<close>

text \<open>
  C1 (as the code has it).  For every schema and selection state, the total is the sum
  accumulated from 0, each addition rounding, in this order: the values of the
  Dropdown mapping in the order in which the object enumerates them, a \<open>NaN\<close> value
  counting as 0 (the guard \<open>v || 0\<close>); then, field by field in schema order, the parsed
  amount of every option of a Toggle or Checkbox field whose flag is set, in the order
  of the options.  When no value of the mapping is \<open>NaN\<close> this is the sum of the
  specification taken in that order.  The order of the fields is part of the result.
\<close>

theorem total_is_sum_of_selections:
  "total calc s =
     sum_in_order
       (map or_zero (Object_values (dropdownValues s))
        @ concat (map (\<lambda>f. map parseAmount (flagged_options (checked s) f)) (fields_of calc)))
   \<and> (NaN \<notin> snd ` set (dropdownValues s) \<longrightarrow> total calc s = computeTotal_spec calc s)"
proof (intro conjI impI)
  show "total calc s =
     sum_in_order
       (map or_zero (Object_values (dropdownValues s))
        @ concat (map (\<lambda>f. map parseAmount (flagged_options (checked s) f)) (fields_of calc)))"
    by (rule total_sum)
next
  assume "NaN \<notin> snd ` set (dropdownValues s)"
  then have "map or_zero (Object_values (dropdownValues s)) = Object_values (dropdownValues s)"
    by (intro map_or_zero_id) (simp add: set_Object_values)
  then show "total calc s = computeTotal_spec calc s"
    by (simp add: total_sum computeTotal_spec_def)
qed

text \<open>The scenario of the specification: Business selected and Insurance checked give 575.\<close>

theorem total_is_sum_of_selections_witness:
  "NaN \<notin> snd ` set (dropdownValues
      (checkbox_onChange demo_extras demo_insurance True
         (dropdown_onChange demo_travel ''500'' initial_state)))
   \<and> computeTotal_spec demo_calc
        (checkbox_onChange demo_extras demo_insurance True
           (dropdown_onChange demo_travel ''500'' initial_state)) = Fin 575
   \<and> total demo_calc
        (checkbox_onChange demo_extras demo_insurance True
           (dropdown_onChange demo_travel ''500'' initial_state)) = Fin 575"
proof -
  let ?s = "checkbox_onChange demo_extras demo_insurance True
              (dropdown_onChange demo_travel ''500'' initial_state)"
  have vals: "dropdownValues ?s = [(''travel'', Fin 500)]"
    by code_simp
  have no_nan: "NaN \<notin> snd ` set (dropdownValues ?s)"
    by (simp add: vals)
  have spec: "computeTotal_spec demo_calc ?s = Fin 575"
    by code_simp
  have "total demo_calc ?s = computeTotal_spec demo_calc ?s"
    using total_is_sum_of_selections [of demo_calc ?s] no_nan by blast
  then have "total demo_calc ?s = Fin 575"
    by (simp only: spec)
  then show ?thesis
    using no_nan spec by blast
qed

text \<open>
  C1 as stated fails twice.  After the Custom option of the Travel Dropdown (its
  \<open>optionValue\<close> is \<open>abc\<close>) is selected, the mapping holds \<open>NaN\<close>, so the sum of its values
  is \<open>NaN\<close>, but the total is 0.  And with three Checkbox fields worth 0.1, 0.2 and 0.3,
  all checked, the total is 0.6000000000000001 in this order of the fields and 0.6 in
  the reverse order.
\<close>

theorem total_is_sum_of_selections_counterexample:
  "map snd (dropdownValues (dropdown_onChange demo_travel ''abc'' initial_state)) = [NaN]
   \<and> computeTotal_spec demo_calc (dropdown_onChange demo_travel ''abc'' initial_state) = NaN
   \<and> total demo_calc (dropdown_onChange demo_travel ''abc'' initial_state) = Fin 0
   \<and> total demo_calc (dropdown_onChange demo_travel ''abc'' initial_state)
        \<noteq> computeTotal_spec demo_calc (dropdown_onChange demo_travel ''abc'' initial_state)
   \<and> fields_of demo_calc_cba = rev (fields_of demo_calc_abc)
   \<and> total demo_calc_abc demo_all_checked = Fin (1351079888211149 / 2251799813685248)
   \<and> total demo_calc_cba demo_all_checked = Fin (5404319552844595 / 9007199254740992)
   \<and> total demo_calc_abc demo_all_checked \<noteq> total demo_calc_cba demo_all_checked"
proof -
  let ?s = "dropdown_onChange demo_travel ''abc'' initial_state"
  have vals: "map snd (dropdownValues ?s) = [NaN]"
    by code_simp
  have spec: "computeTotal_spec demo_calc ?s = NaN"
    by code_simp
  have res: "total demo_calc ?s = Fin 0"
    by code_simp
  have fields: "fields_of demo_calc_cba = rev (fields_of demo_calc_abc)"
    by (simp add: demo_calc_cba_def demo_calc_abc_def fields_of_def)
  have abc: "total demo_calc_abc demo_all_checked = Fin (1351079888211149 / 2251799813685248)"
    by code_simp
  have cba: "total demo_calc_cba demo_all_checked = Fin (5404319552844595 / 9007199254740992)"
    by code_simp
  have "total demo_calc ?s \<noteq> computeTotal_spec demo_calc ?s"
    by (simp add: spec res)
  moreover have "total demo_calc_abc demo_all_checked \<noteq> total demo_calc_cba demo_all_checked"
    by (simp add: abc cba)
  ultimately show ?thesis
    using vals spec res fields abc cba by blast
qed

section \<open>Line items of the Dropdown fields\<close>

text \<open>
  A Dropdown whose key names an inherited property gets a row although nothing is
  selected: both lookups find the inherited value, which is truthy.
\<close>

lemma inherited_key_pushes_row:
  "push_dropdown initial_state demo_constructor []
     = [\<lparr>section = ''Builder'', item = Inherited ''constructor'',
          price = Inherited ''constructor''\<rparr>]"
  by code_simp

text \<open>
  C3 (as the code has it).  The rows are the items of the Dropdown fields in schema order,
  followed by the items of the set flags.  A Dropdown field whose stored value is
  neither zero nor \<open>NaN\<close> and whose stored label is not empty adds the row
  \<open>{section: field.label, item: selectedLabel, price: selectedValue}\<close>.  For a Dropdown
  field whose key (its alias, or \<open>drop_\<close> and its id) is not the name of a property that
  every object inherits, this is the only case in which it adds a row.  A stored value
  of exactly zero adds no row, whatever the label and the key.
\<close>

theorem dropdown_line_item_iff:
  "buildSelections calc s =
     concat (map (dropdown_items s) (fields_of calc))
     @ concat (map (\<lambda>f. map (flag_item f) (flagged_options (checked s) f)) (fields_of calc))
   \<and> (ftype f = DropDown \<and> map_of (dropdownValues s) (dropdown_alias f) = Some v
        \<and> v \<noteq> Fin 0 \<and> v \<noteq> NaN
        \<and> dropdownLabels s (dropdown_alias f) = Some l \<and> l \<noteq> []
      \<longrightarrow> push_dropdown s f rows
            = rows @ [\<lparr>section = label f, item = JSString l, price = JSNumber v\<rparr>]
          \<and> dropdown_items s f = [\<lparr>section = label f, item = JSString l, price = JSNumber v\<rparr>])
   \<and> (dropdown_alias f \<notin> set Object_prototype_names
        \<and> \<not> (ftype f = DropDown
              \<and> (\<exists>v l. map_of (dropdownValues s) (dropdown_alias f) = Some v
                     \<and> v \<noteq> Fin 0 \<and> v \<noteq> NaN
                     \<and> dropdownLabels s (dropdown_alias f) = Some l \<and> l \<noteq> []))
      \<longrightarrow> push_dropdown s f rows = rows \<and> dropdown_items s f = [])
   \<and> (map_of (dropdownValues s) (dropdown_alias f) = Some (Fin 0)
      \<longrightarrow> push_dropdown s f rows = rows \<and> dropdown_items s f = [])"
proof (intro conjI impI)
  show "buildSelections calc s =
     concat (map (dropdown_items s) (fields_of calc))
     @ concat (map (\<lambda>f. map (flag_item f) (flagged_options (checked s) f)) (fields_of calc))"
    by (rule buildSelections_eq)
next
  assume "ftype f = DropDown \<and> map_of (dropdownValues s) (dropdown_alias f) = Some v
        \<and> v \<noteq> Fin 0 \<and> v \<noteq> NaN
        \<and> dropdownLabels s (dropdown_alias f) = Some l \<and> l \<noteq> []"
  then show "dropdown_items s f = [\<lparr>section = label f, item = JSString l, price = JSNumber v\<rparr>]"
    by (simp add: dropdown_items_def push_dropdown_def get_prop_def truthy_value_def
        truthy_label_def truthy_num_def)
  then show "push_dropdown s f rows
        = rows @ [\<lparr>section = label f, item = JSString l, price = JSNumber v\<rparr>]"
    by (simp add: push_dropdown_eq)
next
  assume h: "dropdown_alias f \<notin> set Object_prototype_names
        \<and> \<not> (ftype f = DropDown
              \<and> (\<exists>v l. map_of (dropdownValues s) (dropdown_alias f) = Some v
                     \<and> v \<noteq> Fin 0 \<and> v \<noteq> NaN
                     \<and> dropdownLabels s (dropdown_alias f) = Some l \<and> l \<noteq> []))"
  show "dropdown_items s f = []"
  proof (cases "ftype f = DropDown")
    case False
    then show ?thesis
      by (simp add: dropdown_items_def push_dropdown_def)
  next
    case True
    then have "\<not> (truthy_value (get_prop (map_of (dropdownValues s)) (dropdown_alias f))
                 \<and> truthy_label (get_prop (dropdownLabels s) (dropdown_alias f)))"
      using h
      by (auto simp: get_prop_def truthy_value_def truthy_label_def truthy_num_def
          split: option.splits)
    then show ?thesis
      by (auto simp: dropdown_items_def push_dropdown_def Let_def)
  qed
  then show "push_dropdown s f rows = rows"
    by (simp add: push_dropdown_eq)
next
  assume "map_of (dropdownValues s) (dropdown_alias f) = Some (Fin 0)"
  then show "dropdown_items s f = []"
    by (simp add: dropdown_items_def push_dropdown_def get_prop_def truthy_value_def
        truthy_num_def)
  then show "push_dropdown s f rows = rows"
    by (simp add: push_dropdown_eq)
qed

text \<open>
  The scenario of the specification: nothing selected gives no row; Business (500) gives
  one row; Economy (0) gives none, although its label is stored.
\<close>

theorem dropdown_line_item_iff_witness:
  "ftype demo_travel = DropDown
   \<and> dropdown_alias demo_travel \<notin> set Object_prototype_names
   \<and> map_of (dropdownValues initial_state) (dropdown_alias demo_travel) = None
   \<and> push_dropdown initial_state demo_travel [] = []
   \<and> map_of (dropdownValues (dropdown_onChange demo_travel ''500'' initial_state))
        (dropdown_alias demo_travel) = Some (Fin 500)
   \<and> dropdownLabels (dropdown_onChange demo_travel ''500'' initial_state)
        (dropdown_alias demo_travel) = Some ''Business''
   \<and> push_dropdown (dropdown_onChange demo_travel ''500'' initial_state) demo_travel []
        = [\<lparr>section = ''Travel'', item = JSString ''Business'', price = JSNumber (Fin 500)\<rparr>]
   \<and> map_of (dropdownValues (dropdown_onChange demo_travel ''0'' initial_state))
        (dropdown_alias demo_travel) = Some (Fin 0)
   \<and> dropdownLabels (dropdown_onChange demo_travel ''0'' initial_state)
        (dropdown_alias demo_travel) = Some ''Economy''
   \<and> push_dropdown (dropdown_onChange demo_travel ''0'' initial_state) demo_travel [] = []"
proof -
  let ?b = "dropdown_onChange demo_travel ''500'' initial_state"
  let ?e = "dropdown_onChange demo_travel ''0'' initial_state"
  have ty: "ftype demo_travel = DropDown" and lab: "label demo_travel = ''Travel''"
    by (simp_all add: demo_travel_def)
  have own: "dropdown_alias demo_travel \<notin> set Object_prototype_names"
    by code_simp
  have n: "map_of (dropdownValues initial_state) (dropdown_alias demo_travel) = None"
    by (simp add: initial_state_def)
  have b: "map_of (dropdownValues ?b) (dropdown_alias demo_travel) = Some (Fin 500)"
    "dropdownLabels ?b (dropdown_alias demo_travel) = Some ''Business''"
    by code_simp+
  have e: "map_of (dropdownValues ?e) (dropdown_alias demo_travel) = Some (Fin 0)"
    "dropdownLabels ?e (dropdown_alias demo_travel) = Some ''Economy''"
    by code_simp+
  have "push_dropdown initial_state demo_travel [] = []"
    using dropdown_line_item_iff [of demo_calc initial_state demo_travel "Fin 0" "''''" "[]"]
      own n
    by simp
  moreover have "push_dropdown ?b demo_travel []
        = [\<lparr>section = ''Travel'', item = JSString ''Business'', price = JSNumber (Fin 500)\<rparr>]"
    using dropdown_line_item_iff [of demo_calc ?b demo_travel "Fin 500" "''Business''" "[]"]
      ty b
    by (simp add: lab)
  moreover have "push_dropdown ?e demo_travel [] = []"
    using dropdown_line_item_iff [of demo_calc ?e demo_travel "Fin 0" "''Economy''" "[]"] e
    by simp
  ultimately show ?thesis
    using ty own n b e by blast
qed

text \<open>
  C3 as stated fails: after the Custom option (\<open>optionValue\<close> \<open>abc\<close>) of the Travel
  Dropdown is selected, the selected value is \<open>NaN\<close>, which is not zero, and the selected
  label is \<open>Custom\<close>, which is not empty, yet no line item is built.
\<close>

theorem dropdown_line_item_iff_counterexample:
  "ftype demo_travel = DropDown
   \<and> map_of (dropdownValues (dropdown_onChange demo_travel ''abc'' initial_state))
        (dropdown_alias demo_travel) = Some NaN
   \<and> NaN \<noteq> Fin 0
   \<and> dropdownLabels (dropdown_onChange demo_travel ''abc'' initial_state)
        (dropdown_alias demo_travel) = Some ''Custom''
   \<and> ''Custom'' \<noteq> ''''
   \<and> buildSelections demo_calc (dropdown_onChange demo_travel ''abc'' initial_state) = []"
proof -
  let ?s = "dropdown_onChange demo_travel ''abc'' initial_state"
  have "ftype demo_travel = DropDown"
    by (simp add: demo_travel_def)
  moreover have "map_of (dropdownValues ?s) (dropdown_alias demo_travel) = Some NaN"
    by code_simp
  moreover have "dropdownLabels ?s (dropdown_alias demo_travel) = Some ''Custom''"
    by code_simp
  moreover have "buildSelections demo_calc ?s = []"
    by code_simp
  ultimately show ?thesis
    by simp
qed

section \<open>The export guard\<close>

lemma list_ex_values: "list_ex P (Object_values obj) = (\<exists>v \<in> snd ` set obj. P v)"
  by (simp add: list_ex_iff set_Object_values)

text \<open>
  C2.  The export is rejected (the alert is the only effect, no document is saved)
  exactly when the built rows are empty and no value of the Dropdown mapping is greater
  than 0.  With one value greater than 0 the document is saved, whatever the flags.  The
  submit handler leaves the state as it was, in either case.
\<close>

theorem export_rejected_iff:
  "((\<exists>msg. handleDownloadPdf calc s localeString isoString = Alert msg)
      \<longleftrightarrow> buildSelections calc s = [] \<and> (\<forall>v \<in> snd ` set (dropdownValues s). \<not> js_gt v 0))
   \<and> ((\<exists>v \<in> snd ` set (dropdownValues s). js_gt v 0)
      \<longrightarrow> (\<exists>doc name. handleDownloadPdf calc s localeString isoString = Save doc name))
   \<and> (buildSelections calc s = [] \<and> (\<forall>v \<in> snd ` set (dropdownValues s). \<not> js_gt v 0)
      \<longrightarrow> dispatch calc (SubmitClick localeString isoString) s
            = (s, Some (Alert ''Please make some selections before submitting.'')))
   \<and> fst (dispatch calc (SubmitClick localeString isoString) s) = s"
  by (auto simp: handleDownloadPdf_def somethingSelected_def dispatch_def list_ex_values)

text \<open>
  The scenario of the specification: with Economy (0) selected and nothing checked the
  export is rejected; with Business (500) selected and nothing checked it is saved.
\<close>

theorem export_rejected_iff_witness:
  "buildSelections demo_calc (dropdown_onChange demo_travel ''0'' initial_state) = []
   \<and> snd ` set (dropdownValues (dropdown_onChange demo_travel ''0'' initial_state)) = {Fin 0}
   \<and> \<not> js_gt (Fin 0) 0
   \<and> dispatch demo_calc (SubmitClick ''11/2/2026, 10:20:30 AM'' ''2026-11-02T10:20:30.123Z'')
        (dropdown_onChange demo_travel ''0'' initial_state)
      = (dropdown_onChange demo_travel ''0'' initial_state,
         Some (Alert ''Please make some selections before submitting.''))
   \<and> Fin 500 \<in> snd ` set (dropdownValues (dropdown_onChange demo_travel ''500'' initial_state))
   \<and> js_gt (Fin 500) 0
   \<and> handleDownloadPdf demo_calc (dropdown_onChange demo_travel ''500'' initial_state)
        ''11/2/2026, 10:20:30 AM'' ''2026-11-02T10:20:30.123Z''
      \<noteq> Alert ''Please make some selections before submitting.''"
proof -
  let ?e = "dropdown_onChange demo_travel ''0'' initial_state"
  let ?b = "dropdown_onChange demo_travel ''500'' initial_state"
  have vals: "dropdownValues ?e = [(''travel'', Fin 0)]" "dropdownValues ?b = [(''travel'', Fin 500)]"
    by code_simp+
  have rows: "buildSelections demo_calc ?e = []"
    by code_simp
  have gt: "\<not> js_gt (Fin 0) 0" "js_gt (Fin 500) 0"
    by (simp_all add: js_gt_def zero_jsnum_def)
  have e_vals: "snd ` set (dropdownValues ?e) = {Fin 0}"
    and b_vals: "Fin 500 \<in> snd ` set (dropdownValues ?b)"
    by (simp_all add: vals)
  note rejected = export_rejected_iff
    [of demo_calc ?e "''11/2/2026, 10:20:30 AM''" "''2026-11-02T10:20:30.123Z''"]
  note saved = export_rejected_iff
    [of demo_calc ?b "''11/2/2026, 10:20:30 AM''" "''2026-11-02T10:20:30.123Z''"]
  have "dispatch demo_calc (SubmitClick ''11/2/2026, 10:20:30 AM'' ''2026-11-02T10:20:30.123Z'') ?e
      = (?e, Some (Alert ''Please make some selections before submitting.''))"
    using rejected rows e_vals gt(1) by simp
  moreover have "\<exists>doc name. handleDownloadPdf demo_calc ?b
        ''11/2/2026, 10:20:30 AM'' ''2026-11-02T10:20:30.123Z'' = Save doc name"
    using saved b_vals gt(2) by blast
  then have "handleDownloadPdf demo_calc ?b ''11/2/2026, 10:20:30 AM'' ''2026-11-02T10:20:30.123Z''
      \<noteq> Alert ''Please make some selections before submitting.''"
    by auto
  ultimately show ?thesis
    using rows e_vals b_vals gt by blast
qed

section \<open>Selecting in a Dropdown\<close>

text \<open>
  C5.  Two successive selections on one alias (in one field, or in two fields that share
  the alias) leave exactly the state that the second selection alone leaves, hence the
  same total.  After a selection the value stored under the alias is
  \<open>Number(raw || 0)\<close>, and the label stored is the \<open>optionText\<close> of the first option
  whose \<open>optionValue\<close> is the raw value, or the empty string when there is none.
\<close>

theorem dropdown_selection_replaces:
  "(dropdown_alias f1 = dropdown_alias f2
      \<longrightarrow> dropdown_onChange f2 raw2 (dropdown_onChange f1 raw1 s) = dropdown_onChange f2 raw2 s
          \<and> total calc (dropdown_onChange f2 raw2 (dropdown_onChange f1 raw1 s))
              = total calc (dropdown_onChange f2 raw2 s))
   \<and> map_of (dropdownValues (dropdown_onChange f raw s)) (dropdown_alias f)
       = Some (Number_or_zero raw)
   \<and> dropdownLabels (dropdown_onChange f raw s) (dropdown_alias f)
       = Some (case options f of
                 None \<Rightarrow> ''''
               | Some os \<Rightarrow>
                   (case find (\<lambda>opt. optionValue opt = raw) os of
                      None \<Rightarrow> ''''
                    | Some opt \<Rightarrow> optionText opt))"
proof (intro conjI impI)
  assume "dropdown_alias f1 = dropdown_alias f2"
  then show same: "dropdown_onChange f2 raw2 (dropdown_onChange f1 raw1 s) = dropdown_onChange f2 raw2 s"
    by (simp add: dropdown_onChange_def)
  show "total calc (dropdown_onChange f2 raw2 (dropdown_onChange f1 raw1 s))
          = total calc (dropdown_onChange f2 raw2 s)"
    by (simp only: same)
next
  show "map_of (dropdownValues (dropdown_onChange f raw s)) (dropdown_alias f)
       = Some (Number_or_zero raw)"
    by (simp add: dropdown_onChange_def AList.update_conv')
  show "dropdownLabels (dropdown_onChange f raw s) (dropdown_alias f)
       = Some (case options f of
                 None \<Rightarrow> ''''
               | Some os \<Rightarrow>
                   (case find (\<lambda>opt. optionValue opt = raw) os of
                      None \<Rightarrow> ''''
                    | Some opt \<Rightarrow> optionText opt))"
    by (simp add: dropdown_onChange_def selected_text_def split: option.splits)
qed

text \<open>Business, then Economy: only Economy is left, and the total is 0.\<close>

theorem dropdown_selection_replaces_witness:
  "dropdown_alias demo_travel = dropdown_alias demo_travel
   \<and> dropdownValues (dropdown_onChange demo_travel ''0''
        (dropdown_onChange demo_travel ''500'' initial_state)) = [(''travel'', Fin 0)]
   \<and> dropdownLabels (dropdown_onChange demo_travel ''0''
        (dropdown_onChange demo_travel ''500'' initial_state)) ''travel'' = Some ''Economy''
   \<and> total demo_calc (dropdown_onChange demo_travel ''0''
        (dropdown_onChange demo_travel ''500'' initial_state)) = Fin 0"
proof -
  let ?e = "dropdown_onChange demo_travel ''0'' initial_state"
  have vals: "dropdownValues ?e = [(''travel'', Fin 0)]"
    by code_simp
  have lab: "dropdownLabels ?e ''travel'' = Some ''Economy''"
    by code_simp
  have tot: "total demo_calc ?e = Fin 0"
    by code_simp
  note inst = dropdown_selection_replaces
    [of demo_travel demo_travel "''0''" "''500''" initial_state demo_calc demo_travel "''0''"]
  have same: "dropdown_onChange demo_travel ''0'' (dropdown_onChange demo_travel ''500'' initial_state) = ?e"
    using inst by blast
  show ?thesis
    by (simp only: same vals tot lab)
qed

section \<open>Toggling a flag\<close>

lemma flagged_options_cong:
  assumes "\<And>k. is_checked chk k = is_checked chk' k"
  shows "flagged_options chk f = flagged_options chk' f"
  by (simp add: flagged_options_def assms split: option.splits)

lemma is_checked_update:
  "is_checked (chk(key \<mapsto> b)) k = (if k = key then b else is_checked chk k)"
  by (simp add: is_checked_def get_prop_def)

lemma total_cong:
  assumes "dropdownValues s = dropdownValues s'"
    and "\<And>k. is_checked (checked s) k = is_checked (checked s') k"
  shows "total calc s = total calc s'"
proof -
  have "flagged_options (checked s) f = flagged_options (checked s') f" for f
    using assms(2) by (rule flagged_options_cong)
  then show ?thesis
    by (simp add: total_sum assms(1))
qed

text \<open>
  C6.  From a state in which the flag of an option is not set (the state in which the
  checkbox reports \<open>checked = true\<close>), setting the flag and then clearing it gives the
  total that was there before the first toggle; these two calls are what two clicks on
  the checkbox do there.  From every state, two clicks on one checkbox give the total
  that was there before.
\<close>

theorem toggle_on_off_restores_total:
  "(\<not> is_checked (checked s) (flag_key f opt)
      \<longrightarrow> total calc (checkbox_onChange f opt False (checkbox_onChange f opt True s)) = total calc s
          \<and> checkbox_click f opt (checkbox_click f opt s)
              = checkbox_onChange f opt False (checkbox_onChange f opt True s))
   \<and> total calc (checkbox_click f opt (checkbox_click f opt s)) = total calc s"
proof -
  have twice: "total calc (checkbox_onChange f opt (is_checked (checked s) (flag_key f opt))
                  (checkbox_onChange f opt b s)) = total calc s" for b
  proof (rule total_cong)
    show "dropdownValues (checkbox_onChange f opt (is_checked (checked s) (flag_key f opt))
            (checkbox_onChange f opt b s)) = dropdownValues s"
      by (simp add: checkbox_onChange_def)
  next
    fix k
    show "is_checked (checked (checkbox_onChange f opt (is_checked (checked s) (flag_key f opt))
            (checkbox_onChange f opt b s))) k = is_checked (checked s) k"
      by (simp add: checkbox_onChange_def is_checked_update)
  qed
  have clicks: "checkbox_click f opt (checkbox_click f opt s)
        = checkbox_onChange f opt (is_checked (checked s) (flag_key f opt))
            (checkbox_onChange f opt (\<not> is_checked (checked s) (flag_key f opt)) s)"
    by (simp add: checkbox_click_def checkbox_onChange_def is_checked_update)
  have all: "total calc (checkbox_click f opt (checkbox_click f opt s)) = total calc s"
    by (simp only: clicks twice)
  have unset: "total calc (checkbox_onChange f opt False (checkbox_onChange f opt True s))
          = total calc s
        \<and> checkbox_click f opt (checkbox_click f opt s)
          = checkbox_onChange f opt False (checkbox_onChange f opt True s)"
    if "\<not> is_checked (checked s) (flag_key f opt)"
    using that twice [of True] clicks by simp
  show ?thesis
    using all unset by blast
qed

text \<open>
  The scenario of the specification: with Business selected the total is 500; checking
  Insurance makes it 575; unchecking it makes it 500 again.
\<close>

theorem toggle_on_off_restores_total_witness:
  "\<not> is_checked (checked (dropdown_onChange demo_travel ''500'' initial_state))
        (flag_key demo_extras demo_insurance)
   \<and> total demo_calc (dropdown_onChange demo_travel ''500'' initial_state) = Fin 500
   \<and> total demo_calc (checkbox_onChange demo_extras demo_insurance True
        (dropdown_onChange demo_travel ''500'' initial_state)) = Fin 575
   \<and> total demo_calc (checkbox_onChange demo_extras demo_insurance False
        (checkbox_onChange demo_extras demo_insurance True
          (dropdown_onChange demo_travel ''500'' initial_state))) = Fin 500"
proof -
  let ?b = "dropdown_onChange demo_travel ''500'' initial_state"
  let ?on = "checkbox_onChange demo_extras demo_insurance True ?b"
  have unset: "\<not> is_checked (checked ?b) (flag_key demo_extras demo_insurance)"
    by (simp add: is_checked_flag_key dropdown_onChange_def initial_state_def)
  have before: "total demo_calc ?b = Fin 500"
    by code_simp
  have during: "total demo_calc ?on = Fin 575"
    by code_simp
  have "total demo_calc (checkbox_onChange demo_extras demo_insurance False ?on)
        = total demo_calc ?b"
    using unset toggle_on_off_restores_total [of ?b demo_extras demo_insurance demo_calc]
    by blast
  then have "total demo_calc (checkbox_onChange demo_extras demo_insurance False ?on) = Fin 500"
    by (simp only: before)
  then show ?thesis
    using unset before during by blast
qed

text \<open>
  C7.  The handler of a checkbox writes the entry of its own key in \<open>checked\<close> and
  nothing else: every entry of \<open>checked\<close> under another key, the whole of
  \<open>dropdownValues\<close> and the whole of \<open>dropdownLabels\<close> are as before.
\<close>

theorem checkbox_toggle_frame:
  "dropdownValues (checkbox_onChange f opt b s) = dropdownValues s
   \<and> dropdownLabels (checkbox_onChange f opt b s) = dropdownLabels s
   \<and> checked (checkbox_onChange f opt b s) (flag_key f opt) = Some b
   \<and> (\<forall>k. k \<noteq> flag_key f opt \<longrightarrow> checked (checkbox_onChange f opt b s) k = checked s k)"
  by (simp add: checkbox_onChange_def)

theorem checkbox_toggle_frame_witness:
  "''insurance:Discount'' \<noteq> flag_key demo_extras demo_insurance
   \<and> checked (checkbox_onChange demo_extras demo_insurance True
        (checkbox_onChange demo_extras demo_discount True
          (dropdown_onChange demo_travel ''500'' initial_state))) ''insurance:Discount''
      = Some True
   \<and> checked (checkbox_onChange demo_extras demo_insurance True
        (checkbox_onChange demo_extras demo_discount True
          (dropdown_onChange demo_travel ''500'' initial_state))) ''insurance:Insurance''
      = Some True
   \<and> dropdownValues (checkbox_onChange demo_extras demo_insurance True
        (checkbox_onChange demo_extras demo_discount True
          (dropdown_onChange demo_travel ''500'' initial_state)))
      = [(''travel'', Fin 500)]"
proof -
  let ?s = "checkbox_onChange demo_extras demo_discount True
              (dropdown_onChange demo_travel ''500'' initial_state)"
  have keys: "flag_key demo_extras demo_insurance = ''insurance:Insurance''"
    "flag_key demo_extras demo_discount = ''insurance:Discount''"
    by (simp_all add: flag_key_def demo_extras_def demo_insurance_def demo_discount_def)
  have other: "''insurance:Discount'' \<noteq> flag_key demo_extras demo_insurance"
    by (simp add: keys)
  have old: "checked ?s ''insurance:Discount'' = Some True"
    by (simp add: checkbox_onChange_def keys)
  have vals: "dropdownValues ?s = [(''travel'', Fin 500)]"
    by code_simp
  note inst = checkbox_toggle_frame [of demo_extras demo_insurance True ?s]
  have "checked (checkbox_onChange demo_extras demo_insurance True ?s) ''insurance:Discount''
        = checked ?s ''insurance:Discount''"
    using inst other by blast
  moreover have "checked (checkbox_onChange demo_extras demo_insurance True ?s)
        ''insurance:Insurance'' = Some True"
    using inst by (simp only: keys)
  moreover have "dropdownValues (checkbox_onChange demo_extras demo_insurance True ?s)
        = dropdownValues ?s"
    using inst by blast
  ultimately show ?thesis
    using other by (simp only: old vals) simp
qed

section \<open>A missing configuration\<close>

text \<open>
  C8 (as the code has it).  \<open>calculator\<close> is a total function: optional chaining and
  \<open>?? null\<close> cannot raise.  When the root has no \<open>calculators\<close> (or an empty sequence) it
  is \<open>null\<close>.  When the first calculator has no \<open>ccb_fields\<close> it is that calculator, not
  \<open>null\<close>; the test \<open>!calculator.ccb_fields\<close> of the component catches it.  In both cases
  the component returns the message view, which has no interactive control and no
  submit button, so no export can be started.  These are the only cases of that view.
\<close>

theorem missing_configuration_degrades:
  "(calculators ccbRoot = None \<or> calculators ccbRoot = Some []
      \<longrightarrow> calculator ccbRoot = None \<and> Calculator (calculator ccbRoot) s = NoCalculatorFound)
   \<and> (calculators ccbRoot = Some (c # cs) \<and> ccb_fields c = None
      \<longrightarrow> calculator ccbRoot = Some c \<and> Calculator (calculator ccbRoot) s = NoCalculatorFound)
   \<and> (Calculator calc s = NoCalculatorFound
      \<longleftrightarrow> calc = None \<or> (\<exists>d. calc = Some d \<and> ccb_fields d = None))
   \<and> (Calculator calc s = NoCalculatorFound
      \<longrightarrow> interactive_controls (Calculator calc s) = [] \<and> \<not> submit_button (Calculator calc s))"
  by (auto simp: calculator_def Calculator_def interactive_controls_def submit_button_def
      split: option.splits)

theorem missing_configuration_degrades_witness:
  "calculators demo_root_empty = None
   \<and> calculator demo_root_empty = None
   \<and> Calculator (calculator demo_root_empty) initial_state = NoCalculatorFound
   \<and> calculators demo_root_no_fields = Some (demo_no_fields # [])
   \<and> ccb_fields demo_no_fields = None
   \<and> Calculator (calculator demo_root_no_fields) initial_state = NoCalculatorFound
   \<and> interactive_controls (Calculator (calculator demo_root_no_fields) initial_state) = []
   \<and> \<not> submit_button (Calculator (calculator demo_root_no_fields) initial_state)"
proof -
  have empty: "calculators demo_root_empty = None"
    by (simp add: demo_root_empty_def)
  have first: "calculators demo_root_no_fields = Some (demo_no_fields # [])"
    "ccb_fields demo_no_fields = None"
    by (simp_all add: demo_root_no_fields_def demo_no_fields_def)
  note a = missing_configuration_degrades
    [of demo_root_empty initial_state demo_no_fields "[]" "calculator demo_root_empty"]
  note b = missing_configuration_degrades
    [of demo_root_no_fields initial_state demo_no_fields "[]" "calculator demo_root_no_fields"]
  have "calculator demo_root_empty = None
        \<and> Calculator (calculator demo_root_empty) initial_state = NoCalculatorFound"
    using a empty by blast
  moreover have view: "Calculator (calculator demo_root_no_fields) initial_state = NoCalculatorFound"
    using b first by blast
  moreover have "interactive_controls (Calculator (calculator demo_root_no_fields) initial_state) = []
        \<and> \<not> submit_button (Calculator (calculator demo_root_no_fields) initial_state)"
    using b view by blast
  ultimately show ?thesis
    using empty first by blast
qed

text \<open>
  C8 as stated fails: for a root whose first calculator has no \<open>ccb_fields\<close>, \<open>calculator\<close>
  is that calculator and not \<open>null\<close>.
\<close>

theorem missing_configuration_degrades_counterexample:
  "calculators demo_root_no_fields = Some [demo_no_fields]
   \<and> ccb_fields demo_no_fields = None
   \<and> calculator demo_root_no_fields = Some demo_no_fields
   \<and> calculator demo_root_no_fields \<noteq> None"
  by (simp add: calculator_def demo_root_no_fields_def demo_no_fields_def)

section \<open>The older variant of the total\<close>

text \<open>
  C9 (as the code has it).  The two variants compute the same total whenever no option
  whose flag is set has an \<open>optionValue\<close> that \<open>Number\<close> maps to \<open>NaN\<close>.  When there is
  such an option, the older total is \<open>NaN\<close>, while the current variant counts the option
  as 0.
\<close>

theorem totals_agree_unless_unparsable:
  "((\<forall>f \<in> set (fields_of calc). \<forall>opt \<in> set (flagged_options (checked s) f).
        amount_old opt \<noteq> NaN)
      \<longrightarrow> total_old calc s = total calc s)
   \<and> (f \<in> set (fields_of calc) \<and> opt \<in> set (flagged_options (checked s) f)
        \<and> amount_old opt = NaN
      \<longrightarrow> total_old calc s = NaN \<and> parseAmount opt = Fin 0)"
proof (intro conjI impI)
  assume ok: "\<forall>f \<in> set (fields_of calc). \<forall>opt \<in> set (flagged_options (checked s) f).
        amount_old opt \<noteq> NaN"
  have inner: "map parseAmount (flagged_options (checked s) f)
        = map amount_old (flagged_options (checked s) f)"
    if "f \<in> set (fields_of calc)" for f
    using ok that by (intro map_cong refl) (simp add: parseAmount_old or_zero_id)
  have "map (\<lambda>f. map parseAmount (flagged_options (checked s) f)) (fields_of calc)
        = map (\<lambda>f. map amount_old (flagged_options (checked s) f)) (fields_of calc)"
    by (rule map_cong [OF refl]) (rule inner)
  then show "total_old calc s = total calc s"
    by (simp only: total_sum total_old_sum)
next
  assume bad: "f \<in> set (fields_of calc) \<and> opt \<in> set (flagged_options (checked s) f)
        \<and> amount_old opt = NaN"
  then have "NaN \<in> set (map amount_old (flagged_options (checked s) f))"
    by force
  then have "NaN \<in> set (concat (map (\<lambda>f. map amount_old (flagged_options (checked s) f))
                                  (fields_of calc)))"
    using bad by force
  then have "sum_in_order
               (map or_zero (Object_values (dropdownValues s))
                @ concat (map (\<lambda>f. map amount_old (flagged_options (checked s) f))
                            (fields_of calc))) = NaN"
    unfolding sum_in_order_def by (intro fold_plus_NaN) simp
  then show "total_old calc s = NaN"
    by (simp only: total_old_sum)
  show "parseAmount opt = Fin 0"
    using bad by (simp add: parseAmount_old or_zero_def truthy_num_def)
qed

text \<open>With Insurance (75) checked both totals are 75; with Custom (\<open>abc\<close>) checked the older one is \<open>NaN\<close>.\<close>

theorem totals_agree_unless_unparsable_witness:
  "flagged_options (checked (checkbox_onChange demo_extras demo_insurance True initial_state))
      demo_travel = []
   \<and> flagged_options (checked (checkbox_onChange demo_extras demo_insurance True initial_state))
      demo_extras = [demo_insurance]
   \<and> amount_old demo_insurance = Fin 75
   \<and> total demo_calc (checkbox_onChange demo_extras demo_insurance True initial_state) = Fin 75
   \<and> total_old demo_calc (checkbox_onChange demo_extras demo_insurance True initial_state) = Fin 75
   \<and> demo_extras \<in> set (fields_of demo_calc)
   \<and> demo_custom \<in> set (flagged_options
        (checked (checkbox_onChange demo_extras demo_custom True initial_state)) demo_extras)
   \<and> amount_old demo_custom = NaN
   \<and> total_old demo_calc (checkbox_onChange demo_extras demo_custom True initial_state) = NaN"
proof -
  let ?i = "checkbox_onChange demo_extras demo_insurance True initial_state"
  let ?c = "checkbox_onChange demo_extras demo_custom True initial_state"
  have fields: "fields_of demo_calc = [demo_travel, demo_extras]"
    by (simp add: demo_calc_def fields_of_def)
  have flags: "flagged_options (checked ?i) demo_travel = []"
    "flagged_options (checked ?i) demo_extras = [demo_insurance]"
    "flagged_options (checked ?c) demo_extras = [demo_custom]"
    by code_simp+
  have amounts: "amount_old demo_insurance = Fin 75" "amount_old demo_custom = NaN"
    by code_simp+
  have ok: "\<forall>f \<in> set (fields_of demo_calc). \<forall>opt \<in> set (flagged_options (checked ?i) f).
        amount_old opt \<noteq> NaN"
    by (simp add: fields flags amounts)
  have bad: "demo_extras \<in> set (fields_of demo_calc)"
    "demo_custom \<in> set (flagged_options (checked ?c) demo_extras)"
    by (simp_all add: fields flags)
  have new: "total demo_calc ?i = Fin 75"
    by code_simp
  have "total_old demo_calc ?i = total demo_calc ?i"
    using totals_agree_unless_unparsable [of demo_calc ?i demo_extras demo_custom] ok by blast
  then have old: "total_old demo_calc ?i = Fin 75"
    by (simp only: new)
  have "total_old demo_calc ?c = NaN"
    using totals_agree_unless_unparsable [of demo_calc ?c demo_extras demo_custom] bad amounts(2)
    by blast
  then show ?thesis
    using flags(1,2) bad amounts new old by blast
qed

text \<open>
  C9 as stated fails: with the flag of the Custom option (\<open>optionValue\<close> \<open>abc\<close>) set, the
  older variant computes \<open>NaN\<close> and the current one 0.
\<close>

theorem totals_agree_unless_unparsable_counterexample:
  "is_checked (checked (checkbox_onChange demo_extras demo_custom True initial_state))
      (flag_key demo_extras demo_custom)
   \<and> Number_str (optionValue demo_custom) = NaN
   \<and> total_old demo_calc (checkbox_onChange demo_extras demo_custom True initial_state) = NaN
   \<and> total demo_calc (checkbox_onChange demo_extras demo_custom True initial_state) = Fin 0
   \<and> total_old demo_calc (checkbox_onChange demo_extras demo_custom True initial_state)
        \<noteq> total demo_calc (checkbox_onChange demo_extras demo_custom True initial_state)"
proof -
  let ?c = "checkbox_onChange demo_extras demo_custom True initial_state"
  have old: "total_old demo_calc ?c = NaN"
    by code_simp
  have new: "total demo_calc ?c = Fin 0"
    by code_simp
  have "is_checked (checked ?c) (flag_key demo_extras demo_custom)"
    by (simp add: is_checked_flag_key checkbox_onChange_def)
  moreover have "Number_str (optionValue demo_custom) = NaN"
    by code_simp
  ultimately show ?thesis
    by (simp add: old new)
qed

section \<open>Fields that share an alias\<close>













end
